theory Spec2Isabelle
  imports Main "HOL-Library.Word"
begin

section \<open>Go values shared by all components\<close>

text \<open>
  A Go \<^verbatim>\<open>error\<close> is modelled by what the code observes of it: its message
  (\<^verbatim>\<open>err.Error()\<close>), whether some error in its chain implements \<^verbatim>\<open>net.Error\<close>
  and what that one answers to \<^verbatim>\<open>Timeout()\<close> (\<^verbatim>\<open>errors.As\<close>), and the error it
  wraps (\<^verbatim>\<open>fmt.Errorf("prefix: %w", err)\<close>).
\<close>

datatype go_error =
    Plain string
  | NetErr string bool
  | Wrap string go_error

fun error_string :: "go_error \<Rightarrow> string" where
  "error_string (Plain m) = m"
| "error_string (NetErr m t) = m"
| "error_string (Wrap p e) = p @ error_string e"

text \<open>\<^verbatim>\<open>errors.As(err, &netErr) && netErr.Timeout()\<close>: the first \<^verbatim>\<open>net.Error\<close> of the chain decides.\<close>

fun as_net_timeout :: "go_error \<Rightarrow> bool" where
  "as_net_timeout (Plain m) = False"
| "as_net_timeout (NetErr m t) = t"
| "as_net_timeout (Wrap p e) = as_net_timeout e"

text \<open>\<^verbatim>\<open>strings.Contains(s, substr)\<close>.\<close>

fun Contains :: "string \<Rightarrow> string \<Rightarrow> bool" where
  "Contains [] sub = (sub = [])"
| "Contains (c # cs) sub = (take (length sub) (c # cs) = sub \<or> Contains cs sub)"

text \<open>The verb \<^verbatim>\<open>%d\<close> of \<^verbatim>\<open>fmt\<close> on an \<^verbatim>\<open>int\<close>.\<close>

definition digit_char :: "nat \<Rightarrow> char" where
  "digit_char d = char_of (48 + d)"

function show_nat :: "nat \<Rightarrow> string" where
  "show_nat n = (if n < 10 then [digit_char n] else show_nat (n div 10) @ [digit_char (n mod 10)])"
  by pat_completeness auto
termination
  by (relation "measure (\<lambda>n. n)") auto

declare show_nat.simps [simp del]

definition show_int :: "int \<Rightarrow> string" where
  "show_int i = (if i < 0 then CHR ''-'' # show_nat (nat (- i)) else show_nat (nat i))"

definition newline :: char where
  "newline = CHR 0x0A"

text \<open>A \<^verbatim>\<open>time.Time\<close>, with \<open>0\<close> the zero time (\<^verbatim>\<open>IsZero\<close>); a \<^verbatim>\<open>time.Duration\<close> in nanoseconds.\<close>

type_synonym time = nat
type_synonym duration = int

section \<open>The domain: jobs (internal/domain/job.go)\<close>

definition ExecutorTypeHTTP :: string where
  "ExecutorTypeHTTP = ''http''"

definition ExecutorTypeShell :: string where
  "ExecutorTypeShell = ''shell''"

definition ConcurrencyPolicyAllow :: string where
  "ConcurrencyPolicyAllow = ''Allow''"

definition ConcurrencyPolicyForbid :: string where
  "ConcurrencyPolicyForbid = ''Forbid''"

record JobExecutor =
  URL :: string
  Method :: string
  Command :: string

record RetryPolicy =
  MaxRetries :: int
  Backoff :: duration

record Job =
  ID :: string
  Name :: string
  CronExpr :: string
  ExecutorType :: string
  Executor :: JobExecutor
  ConcurrencyPolicy :: string
  RetryPolicy :: "RetryPolicy option"
  CreatedAt :: time
  UpdatedAt :: time

text \<open>
  \<^verbatim>\<open>Job.Validate\<close> returns an error or \<^verbatim>\<open>nil\<close>, and fills two defaults into the job
  it is called on; the model returns the job as the call leaves it. No field is written
  on a path that returns an error.
\<close>

definition Validate :: "Job \<Rightarrow> go_error + Job" where
  "Validate j =
    (if Name j = '''' then Inl (Plain ''job name cannot be empty'')
     else if CronExpr j = '''' then Inl (Plain ''cron expression cannot be empty'')
     else if ExecutorType j = ExecutorTypeHTTP then
       (if URL (Executor j) = '''' then Inl (Plain ''executor URL cannot be empty for http job'')
        else
          (let j1 = (if Method (Executor j) = ''''
                     then j\<lparr>Executor := (Executor j)\<lparr>Method := ''GET''\<rparr>\<rparr> else j)
           in Inr (if ConcurrencyPolicy j1 = ''''
                   then j1\<lparr>ConcurrencyPolicy := ConcurrencyPolicyAllow\<rparr> else j1)))
     else if ExecutorType j = ExecutorTypeShell then
       (if Command (Executor j) = ''''
        then Inl (Plain ''executor command cannot be empty for shell job'')
        else Inr (if ConcurrencyPolicy j = ''''
                  then j\<lparr>ConcurrencyPolicy := ConcurrencyPolicyAllow\<rparr> else j))
     else Inl (Plain (''invalid executor type: '' @ ExecutorType j)))"

section \<open>The shell executor (internal/infra/shell/shell_task_executor.go)\<close>

text \<open>
  What \<^verbatim>\<open>cmd.Run()\<close> leaves behind: the two buffers and the error it returns
  (\<^verbatim>\<open>nil\<close> on exit status 0, an error on a non-zero exit, a failed start or the 30 s
  deadline).
\<close>

record cmd_result =
  stdout :: string
  stderr :: string
  run_err :: "go_error option"

definition shell_Execute :: "(string \<Rightarrow> cmd_result) \<Rightarrow> Job \<Rightarrow> string \<times> go_error option" where
  "shell_Execute run_bash job =
    (let r = run_bash (Command (Executor job));
         output = stdout r;
         errOutput = stderr r;
         output = (if errOutput \<noteq> '''' then
                     (if output \<noteq> ''''
                      then ''[STDERR]:'' @ [newline] @ errOutput @ [newline] @ ''[STDOUT]:'' @ [newline] @ output
                      else ''[STDERR]:'' @ [newline] @ errOutput)
                   else output)
     in (case run_err r of
           Some err \<Rightarrow> (output, Some (Wrap ''shell command failed: '' err))
         | None \<Rightarrow> (output, None)))"

section \<open>The HTTP executor (internal/infra/http/http_task_executor.go)\<close>

text \<open>
  What one request meets: \<^verbatim>\<open>http.NewRequestWithContext\<close> fails, \<^verbatim>\<open>client.Do\<close> fails, or a
  response arrives with its \<^verbatim>\<open>StatusCode\<close>, its \<^verbatim>\<open>Status\<close> line (code and reason phrase as
  the server sent them) and its body.
\<close>

datatype attempt =
    NewRequestFailed go_error
  | DoFailed go_error
  | Response int string string

fun doExecute :: "attempt \<Rightarrow> string \<times> go_error option" where
  "doExecute (NewRequestFailed err) = ('''', Some (Wrap ''failed to create http request: '' err))"
| "doExecute (DoFailed err) = ('''', Some (Wrap ''http request failed: '' err))"
| "doExecute (Response code status body) =
    (let bodyBytes = take 1024 body in
     if code \<ge> 500 then
       (bodyBytes, Some (Plain (''http request returned 5xx server error: '' @ status)))
     else if code \<ge> 400 then
       (bodyBytes, Some (Plain (''http request returned 4xx client error: '' @ status)))
     else (bodyBytes, None))"

text \<open>The test of the retry loop on an attempt's error: both branches marked \<^verbatim>\<open>// Retriable\<close>.\<close>

definition retriable :: "go_error \<Rightarrow> bool" where
  "retriable err =
    (if as_net_timeout err then True
     else if Contains (error_string err) ''5xx'' then True
     else False)"

datatype http_event = Attempt nat | Sleep duration

text \<open>
  The \<^verbatim>\<open>for\<close> loop leaves either through one of its two \<^verbatim>\<open>return\<close>s or, by \<^verbatim>\<open>break\<close> or
  by its condition failing, to the statement after it, with \<^verbatim>\<open>lastErr\<close>.
\<close>

datatype loop_exit =
    Returns string "go_error option"
  | Exhausted "go_error option"

text \<open>
  The world answers the \<open>k\<close>-th request of this execution with \<open>world k\<close>. The loop counter
  \<open>i\<close> is a Go \<^verbatim>\<open>int\<close>; on a worker \<^verbatim>\<open>MaxRetries\<close> comes from an \<^verbatim>\<open>int32\<close>, so \<open>i + 1\<close> never
  overflows.
\<close>

function Execute_loop ::
  "(nat \<Rightarrow> attempt) \<Rightarrow> RetryPolicy \<Rightarrow> int \<Rightarrow> go_error option \<Rightarrow> http_event list
     \<Rightarrow> loop_exit \<times> http_event list" where
  "Execute_loop world rp i lastErr tr =
    (if i \<le> MaxRetries rp then
       (let (output, err) = doExecute (world (nat i));
            tr = tr @ [Attempt (nat i)]
        in (case err of
              None \<Rightarrow> (Returns output None, tr)
            | Some e \<Rightarrow>
                if retriable e then
                  (if i = MaxRetries rp then (Exhausted (Some e), tr)
                   else Execute_loop world rp (i + 1) (Some e) (tr @ [Sleep (Backoff rp)]))
                else
                  (Returns output
                     (Some (Wrap (''non-retriable error on attempt '' @ show_int (i + 1) @ '': '') e)),
                   tr)))
     else (Exhausted lastErr, tr))"
  by pat_completeness auto
termination
  by (relation "measure (\<lambda>(world, rp, i, lastErr, tr). nat (MaxRetries rp + 1 - i))") auto

declare Execute_loop.simps [simp del]

text \<open>
  The statement after the loop returns the \<^verbatim>\<open>output\<close> declared before the loop, which no
  statement assigns (the loop body declares its own \<^verbatim>\<open>output\<close> with \<^verbatim>\<open>:=\<close>). With a \<^verbatim>\<open>nil\<close>
  \<^verbatim>\<open>lastErr\<close> the verb \<^verbatim>\<open>%w\<close> prints \<^verbatim>\<open>%!w(<nil>)\<close> and nothing is wrapped.
\<close>

definition http_Execute ::
  "(nat \<Rightarrow> attempt) \<Rightarrow> Job \<Rightarrow> (string \<times> go_error option) \<times> http_event list" where
  "http_Execute world job =
    (case RetryPolicy job of
       None \<Rightarrow> (doExecute (world 0), [Attempt 0])
     | Some rp \<Rightarrow>
         if MaxRetries rp = 0 then (doExecute (world 0), [Attempt 0])
         else
           (case Execute_loop world rp 0 None [] of
              (Returns output err, tr) \<Rightarrow> ((output, err), tr)
            | (Exhausted lastErr, tr) \<Rightarrow>
                (('''',
                  Some (case lastErr of
                          Some e \<Rightarrow>
                            Wrap (''job failed after '' @ show_int (MaxRetries rp) @ '' retries: '') e
                        | None \<Rightarrow>
                            Plain (''job failed after '' @ show_int (MaxRetries rp)
                                   @ '' retries: %!w(<nil>)''))),
                 tr)))"

text \<open>What the specification calls a retriable failure: a status of 500 or more, or a network timeout.\<close>

fun fails_5xx_or_timeout :: "attempt \<Rightarrow> bool" where
  "fails_5xx_or_timeout (Response code status body) = (code \<ge> 500)"
| "fails_5xx_or_timeout (DoFailed err) = as_net_timeout err"
| "fails_5xx_or_timeout (NewRequestFailed err) = False"

section \<open>Execution records (internal/domain/execution.go)\<close>

definition ExecutionStatusRunning :: string where
  "ExecutionStatusRunning = ''running''"

definition ExecutionStatusSuccess :: string where
  "ExecutionStatusSuccess = ''success''"

definition ExecutionStatusFailed :: string where
  "ExecutionStatusFailed = ''failed''"

record ExecutionRecord =
  exec_ID :: string
  JobName :: string
  StartTime :: time
  EndTime :: time
  Status :: string
  Output :: string
  Error :: string
  RetriesAttempted :: int
  WorkerID :: string

section \<open>The lock (internal/domain/locker.go, internal/infra/etcd/etcd_locker.go)\<close>

definition ErrLockNotAcquired :: go_error where
  "ErrLockNotAcquired = Plain ''lock not acquired''"

text \<open>\<^verbatim>\<open>context.DeadlineExceeded\<close>; its \<^verbatim>\<open>Timeout()\<close> is true.\<close>

definition DeadlineExceeded :: go_error where
  "DeadlineExceeded = NetErr ''context deadline exceeded'' True"

text \<open>\<^verbatim>\<open>concurrency.ErrLocked\<close>, the answer of \<^verbatim>\<open>TryLock\<close> on a mutex that another session holds.\<close>

definition ErrLocked :: go_error where
  "ErrLocked = Plain ''mutex: Locked by another session''"

definition LockPrefix :: string where
  "LockPrefix = ''/cron/locks/''"

text \<open>
  A context is modelled by its deadline: the milliseconds left, or \<open>None\<close> for
  \<^verbatim>\<open>context.Background()\<close>. \<^verbatim>\<open>context.WithTimeout\<close> keeps the earlier deadline.
\<close>

type_synonym ctx = "nat option"

definition WithTimeout :: "ctx \<Rightarrow> nat \<Rightarrow> ctx" where
  "WithTimeout parent ms = (case parent of None \<Rightarrow> Some ms | Some p \<Rightarrow> Some (min p ms))"

text \<open>An acquired \<^verbatim>\<open>domain.Lock\<close>: its name and what its \<^verbatim>\<open>Unlock\<close> will return.\<close>

record Lock =
  lock_name :: string
  Unlock :: "go_error option"

datatype lock_outcome =
    LockAcquired Lock
  | LockFailed go_error

text \<open>
  The mutexes of etcd are the concurrency library's. The store is the table of mutex keys,
  each with the session that holds it. What the store's side decides is in \<open>etcd_world\<close>:
  whether \<^verbatim>\<open>NewSession\<close> fails or gives a session, and the error with which a \<^verbatim>\<open>TryLock\<close> under a
  context, an \<^verbatim>\<open>Unlock\<close> or a session's \<^verbatim>\<open>Close\<close> fails when the store does not answer it (for
  \<^verbatim>\<open>TryLock\<close>, \<^verbatim>\<open>context.DeadlineExceeded\<close> when the deadline passes first). A request that fails
  leaves the table as it was. A \<^verbatim>\<open>TryLock\<close> that is answered takes a free key, and on a key that
  is held returns \<^verbatim>\<open>ErrLocked\<close> at once; an \<^verbatim>\<open>Unlock\<close> that is answered deletes the session's key; a
  \<^verbatim>\<open>Close\<close> that is answered revokes the session's lease, and with it every key the session holds.
\<close>

type_synonym lock_table = "string \<rightharpoonup> nat"

record etcd_world =
  NewSession :: "go_error + nat"
  TryLock_fails :: "ctx \<Rightarrow> string \<Rightarrow> go_error option"
  Unlock_fails :: "go_error option"
  Close_fails :: "go_error option"

definition mutex_TryLock ::
  "etcd_world \<Rightarrow> ctx \<Rightarrow> nat \<Rightarrow> string \<Rightarrow> lock_table \<Rightarrow> go_error option \<times> lock_table" where
  "mutex_TryLock w c session key tbl =
    (case TryLock_fails w c key of
       Some err \<Rightarrow> (Some err, tbl)
     | None \<Rightarrow>
         (case tbl key of
            Some holder \<Rightarrow> (Some ErrLocked, tbl)
          | None \<Rightarrow> (None, tbl(key \<mapsto> session))))"

definition mutex_Unlock ::
  "etcd_world \<Rightarrow> nat \<Rightarrow> string \<Rightarrow> lock_table \<Rightarrow> go_error option \<times> lock_table" where
  "mutex_Unlock w session key tbl =
    (case Unlock_fails w of
       Some err \<Rightarrow> (Some err, tbl)
     | None \<Rightarrow> (None, if tbl key = Some session then tbl(key := None) else tbl))"

definition session_Close :: "etcd_world \<Rightarrow> nat \<Rightarrow> lock_table \<Rightarrow> go_error option \<times> lock_table" where
  "session_Close w session tbl =
    (case Close_fails w of
       Some err \<Rightarrow> (Some err, tbl)
     | None \<Rightarrow> (None, (\<lambda>key. if tbl key = Some session then None else tbl key)))"

text \<open>
  \<^verbatim>\<open>etcdLock.Unlock\<close>: the mutex's \<^verbatim>\<open>Unlock\<close>, and then, deferred, the session's \<^verbatim>\<open>Close\<close>, whose
  error is dropped.
\<close>

definition etcdLock_Unlock ::
  "etcd_world \<Rightarrow> nat \<Rightarrow> string \<Rightarrow> lock_table \<Rightarrow> go_error option \<times> lock_table" where
  "etcdLock_Unlock w session name tbl =
    (case mutex_Unlock w session (LockPrefix @ name) tbl of
       (Some err, tbl1) \<Rightarrow>
         (Some (Wrap (''failed to unlock '' @ name @ '': '') err), snd (session_Close w session tbl1))
     | (None, tbl1) \<Rightarrow> (None, snd (session_Close w session tbl1)))"

text \<open>
  \<^verbatim>\<open>etcdLocker.Lock\<close> on the table as it is when called: what it returns and the table it
  leaves. The comparison with \<^verbatim>\<open>context.DeadlineExceeded\<close> is of error values.
\<close>

definition etcdLocker_Lock ::
  "etcd_world \<Rightarrow> lock_table \<Rightarrow> ctx \<Rightarrow> string \<Rightarrow> lock_outcome \<times> lock_table" where
  "etcdLocker_Lock w tbl c name =
    (case NewSession w of
       Inl err \<Rightarrow>
         (LockFailed (Wrap (''failed to create etcd session for lock '' @ name @ '': '') err), tbl)
     | Inr session \<Rightarrow>
         (let tryCtx = WithTimeout c 100 in
          case mutex_TryLock w tryCtx session (LockPrefix @ name) tbl of
            (Some err, tbl1) \<Rightarrow>
              (let tbl2 = snd (session_Close w session tbl1) in
               if err = DeadlineExceeded then (LockFailed ErrLockNotAcquired, tbl2)
               else (LockFailed (Wrap (''failed to try acquiring etcd lock '' @ name @ '': '') err),
                     tbl2))
          | (None, tbl1) \<Rightarrow>
              (LockAcquired \<lparr>lock_name = name, Unlock = fst (etcdLock_Unlock w session name tbl1)\<rparr>,
               tbl1)))"

text \<open>The \<^verbatim>\<open>domain.Locker\<close> that \<^verbatim>\<open>NewEtcdLocker\<close> gives to the worker's server, on a given table.\<close>

definition etcd_locker :: "etcd_world \<Rightarrow> lock_table \<Rightarrow> ctx \<Rightarrow> string \<Rightarrow> lock_outcome" where
  "etcd_locker w tbl c name = fst (etcdLocker_Lock w tbl c name)"

section \<open>The worker's server (internal/worker/server.go)\<close>

text \<open>
  What an executor does when \<^verbatim>\<open>Execute\<close> is called: it returns an output and an error
  (or \<^verbatim>\<open>nil\<close>), or it panics with a value, printed by \<^verbatim>\<open>%v\<close>.
\<close>

datatype exec_outcome =
    Finished string "go_error option"
  | Panics string

record Server =
  executors :: "string \<rightharpoonup> (Job \<Rightarrow> exec_outcome)"
  locker :: "ctx \<Rightarrow> string \<Rightarrow> lock_outcome"
  workerID :: string

text \<open>
  What the clock and the execution repository answer during one \<^verbatim>\<open>runJob\<close>: the two
  readings of \<^verbatim>\<open>time.Now()\<close> and the results of the two calls of \<^verbatim>\<open>execRepo.Save\<close>.
\<close>

record run_world =
  now_start :: time
  now_end :: time
  save_initial :: "go_error option"
  save_final :: "go_error option"

text \<open>What \<^verbatim>\<open>runJob\<close> does to the outside, in order.\<close>

datatype event =
    Save ExecutionRecord "go_error option"
  | LockCall ctx string
  | UnlockCall ctx string
  | ExecuteCall string
  | MetricInc string string

text \<open>
  The statements of \<^verbatim>\<open>runJob\<close> after its deferred functions are registered, up to the
  point where it returns or panics: what they did, \<^verbatim>\<open>execErr\<close>, the output assigned to
  the record if any, the panic value if any, and the lock whose \<^verbatim>\<open>Unlock\<close> is deferred.
\<close>

record body_result =
  body_events :: "event list"
  body_execErr :: "go_error option"
  body_output :: "string option"
  body_panic :: "string option"
  body_lock :: "Lock option"

definition run_executor :: "Server \<Rightarrow> Job \<Rightarrow> event list \<Rightarrow> Lock option \<Rightarrow> body_result" where
  "run_executor s job evs lk =
    (case executors s (ExecutorType job) of
       None \<Rightarrow>
         \<lparr>body_events = evs,
          body_execErr = Some (Plain (''no executor found for type: '' @ ExecutorType job)),
          body_output = None, body_panic = None, body_lock = lk\<rparr>
     | Some executor \<Rightarrow>
         (case executor job of
            Finished output err \<Rightarrow>
              \<lparr>body_events = evs @ [ExecuteCall (ExecutorType job)],
               body_execErr = err,
               body_output = Some output, body_panic = None, body_lock = lk\<rparr>
          | Panics v \<Rightarrow>
              \<lparr>body_events = evs @ [ExecuteCall (ExecutorType job)],
               body_execErr = None,
               body_output = None, body_panic = Some v, body_lock = lk\<rparr>))"

definition runJob_body :: "Server \<Rightarrow> Job \<Rightarrow> body_result" where
  "runJob_body s job =
    (if ConcurrencyPolicy job = ConcurrencyPolicyForbid then
       (let lockCtx = WithTimeout None 2000 in
        case locker s lockCtx (Name job) of
          LockFailed err \<Rightarrow>
            \<lparr>body_events = [LockCall lockCtx (Name job)],
             body_execErr = Some (Wrap ''skipped execution: '' err),
             body_output = None, body_panic = None, body_lock = None\<rparr>
        | LockAcquired lk \<Rightarrow> run_executor s job [LockCall lockCtx (Name job)] (Some lk))
     else run_executor s job [] None)"

text \<open>
  \<^verbatim>\<open>runJob\<close>: the initial record and its \<^verbatim>\<open>Save\<close>, the body, then the deferred functions
  in the reverse order of their registration: the unlock (registered only once the lock
  is held), the one that derives the status from \<^verbatim>\<open>execErr\<close>, and the first registered,
  which sets \<^verbatim>\<open>EndTime\<close>, recovers a panic and saves the record. It returns what it did and
  the record as it leaves it.
\<close>

definition runJob :: "Server \<Rightarrow> run_world \<Rightarrow> string \<Rightarrow> Job \<Rightarrow> event list \<times> ExecutionRecord" where
  "runJob s w executionID job =
    (let record0 = \<lparr>exec_ID = executionID, JobName = Name job, StartTime = now_start w,
                    EndTime = 0, Status = ExecutionStatusRunning, Output = '''', Error = '''',
                    RetriesAttempted = 0, WorkerID = workerID s\<rparr>;
         evs0 = [Save record0 (save_initial w)];
         b = runJob_body s job;
         record1 = (case body_output b of Some output \<Rightarrow> record0\<lparr>Output := output\<rparr>
                    | None \<Rightarrow> record0);
         evs1 = evs0 @ body_events b;
         evs2 = (case body_lock b of
                   Some lk \<Rightarrow> evs1 @ [UnlockCall (WithTimeout None 5000) (lock_name lk)]
                 | None \<Rightarrow> evs1);
         (record2, evs3) =
            (case body_execErr b of
               Some execErr \<Rightarrow>
                 (record1\<lparr>Status := ExecutionStatusFailed, Error := error_string execErr\<rparr>,
                  evs2 @ [MetricInc (Name job) ''failed''])
             | None \<Rightarrow>
                 (record1\<lparr>Status := ExecutionStatusSuccess\<rparr>,
                  evs2 @ [MetricInc (Name job) ''success'']));
         record3 = record2\<lparr>EndTime := now_end w\<rparr>;
         record4 = (case body_panic b of
                      Some r \<Rightarrow> record3\<lparr>Status := ExecutionStatusFailed, Error := ''panic: '' @ r\<rparr>
                    | None \<Rightarrow> record3)
     in (evs3 @ [Save record4 (save_final w)], record4))"

section \<open>The lock table after an execution\<close>

text \<open>
  Of the calls \<^verbatim>\<open>runJob\<close> makes, two reach etcd's mutexes: the locker's \<^verbatim>\<open>Lock\<close> and the lock's
  \<^verbatim>\<open>Unlock\<close>, the latter on the session that \<^verbatim>\<open>Lock\<close> made. \<open>etcd_serves\<close> is the table after etcd
  has served, in order, the calls of a run.
\<close>

fun etcd_step :: "etcd_world \<Rightarrow> event \<Rightarrow> lock_table \<Rightarrow> lock_table" where
  "etcd_step w (LockCall c name) tbl = snd (etcdLocker_Lock w tbl c name)"
| "etcd_step w (UnlockCall c name) tbl =
    (case NewSession w of
       Inr session \<Rightarrow> snd (etcdLock_Unlock w session name tbl)
     | Inl err \<Rightarrow> tbl)"
| "etcd_step w (Save r res) tbl = tbl"
| "etcd_step w (ExecuteCall t) tbl = tbl"
| "etcd_step w (MetricInc name status) tbl = tbl"

definition etcd_serves :: "etcd_world \<Rightarrow> lock_table \<Rightarrow> event list \<Rightarrow> lock_table" where
  "etcd_serves w tbl evs = fold (etcd_step w) evs tbl"

section \<open>The wire messages (proto) and the worker's RPC method\<close>

record ExecutorHttp =
  Url :: string
  http_Method :: string

record ExecutorShell =
  shell_Command :: string

record pb_RetryPolicy =
  pb_MaxRetries :: "32 word"
  pb_Backoff :: string

record TaskRequest =
  req_Id :: string
  req_Name :: string
  req_CronExpr :: string
  req_ExecutorType :: string
  HttpExecutor :: "ExecutorHttp option"
  ShellExecutor :: "ExecutorShell option"
  req_ConcurrencyPolicy :: string
  req_RetryPolicy :: "pb_RetryPolicy option"
  req_CreatedAt :: time







section \<open>The master: discovery and dispatcher (internal/master)\<close>

text \<open>
  The discovery's map from worker id to address, as a list of its pairs in the order
  in which \<^verbatim>\<open>range\<close> meets them.
\<close>

definition GetWorkers :: "(string \<times> string) list \<Rightarrow> string list" where
  "GetWorkers workers = map snd workers"

text \<open>
  What the dispatcher meets: the value of \<^verbatim>\<open>rand.Intn(n)\<close>, the result of \<^verbatim>\<open>grpc.NewClient\<close>
  on an address, and the error (or \<^verbatim>\<open>nil\<close>) of the RPC on an address.
\<close>

record dispatch_world =
  rand_Intn :: "nat \<Rightarrow> nat"
  grpc_NewClient :: "string \<Rightarrow> go_error option"
  rpc_ExecuteTask :: "string \<Rightarrow> TaskRequest \<Rightarrow> go_error option"

record Dispatcher =
  discovery :: "(string \<times> string) list"
  clients :: "string set"

definition getOrCreateClient :: "dispatch_world \<Rightarrow> Dispatcher \<Rightarrow> string \<Rightarrow> go_error option \<times> Dispatcher" where
  "getOrCreateClient w d addr =
    (if addr \<in> clients d then (None, d)
     else (case grpc_NewClient w addr of
             Some err \<Rightarrow> (Some (Wrap (''failed to connect to worker at '' @ addr @ '': '') err), d)
           | None \<Rightarrow> (None, d\<lparr>clients := insert addr (clients d)\<rparr>)))"

definition domainToProto :: "(duration \<Rightarrow> string) \<Rightarrow> Job \<Rightarrow> go_error + TaskRequest" where
  "domainToProto duration_String job =
    (let req = \<lparr>req_Id = ID job, req_Name = Name job, req_CronExpr = CronExpr job,
                 req_ExecutorType = ExecutorType job, HttpExecutor = None, ShellExecutor = None,
                 req_ConcurrencyPolicy = ConcurrencyPolicy job, req_RetryPolicy = None,
                 req_CreatedAt = CreatedAt job\<rparr>;
         withExecutor =
           (if ExecutorType job = ExecutorTypeHTTP then
              Inr (req\<lparr>HttpExecutor :=
                         Some \<lparr>Url = URL (Executor job), http_Method = Method (Executor job)\<rparr>\<rparr>)
            else if ExecutorType job = ExecutorTypeShell then
              Inr (req\<lparr>ShellExecutor := Some \<lparr>shell_Command = Command (Executor job)\<rparr>\<rparr>)
            else Inl (Plain (''unknown executor type: '' @ ExecutorType job)))
     in (case withExecutor of
           Inl err \<Rightarrow> Inl err
         | Inr req \<Rightarrow>
             (case RetryPolicy job of
                None \<Rightarrow> Inr req
              | Some rp \<Rightarrow>
                  Inr (req\<lparr>req_RetryPolicy :=
                             Some \<lparr>pb_MaxRetries = word_of_int (MaxRetries rp),
                                   pb_Backoff = duration_String (Backoff rp)\<rparr>\<rparr>))))"

text \<open>
  \<^verbatim>\<open>DispatchTask\<close> returns its error (or \<^verbatim>\<open>nil\<close>), the RPCs it sent, as pairs of address and
  request, and the dispatcher with its client cache. Indexing the snapshot outside its
  bounds is a run-time panic in Go.
\<close>

datatype dispatch_result =
    Done "go_error option"
  | IndexPanic

definition DispatchTask ::
  "dispatch_world \<Rightarrow> (duration \<Rightarrow> string) \<Rightarrow> Dispatcher \<Rightarrow> Job
     \<Rightarrow> dispatch_result \<times> (string \<times> TaskRequest) list \<times> Dispatcher" where
  "DispatchTask w duration_String d job =
    (let workers = GetWorkers (discovery d) in
     if length workers = 0 then
       (Done (Some (Plain (''no available workers to dispatch job '' @ Name job))), [], d)
     else
       (let n = rand_Intn w (length workers) in
        if \<not> n < length workers then (IndexPanic, [], d)
        else
          (let workerAddr = workers ! n in
           case getOrCreateClient w d workerAddr of
             (Some err, d1) \<Rightarrow> (Done (Some err), [], d1)
           | (None, d1) \<Rightarrow>
               (case domainToProto duration_String job of
                  Inl err \<Rightarrow> (Done (Some err), [], d1)
                | Inr taskReq \<Rightarrow>
                    (case rpc_ExecuteTask w workerAddr taskReq of
                       Some err \<Rightarrow> (Done (Some err), [(workerAddr, taskReq)], d1)
                     | None \<Rightarrow> (Done None, [(workerAddr, taskReq)], d1))))))"

section \<open>The schedule engine (internal/scheduler/cron_scheduler.go)\<close>

text \<open>
  The cron wheel is the library's (robfig/cron): a list of entries, each with the id
  given at its insertion, its schedule and its job; the counter the ids come from; and
  whether the wheel runs. \<^verbatim>\<open>AddJob\<close> parses the expression first and adds nothing when
  that fails; \<^verbatim>\<open>Remove\<close> drops the entry with the id; entries fire only while the wheel
  runs. The parser is a parameter: \<open>None\<close> when the expression parses.
\<close>

record Cron =
  cron_entries :: "(nat \<times> string \<times> Job) list"
  nextID :: nat
  running :: bool

definition cron_AddJob :: "(string \<Rightarrow> go_error option) \<Rightarrow> Cron \<Rightarrow> string \<Rightarrow> Job \<Rightarrow> (go_error + nat) \<times> Cron" where
  "cron_AddJob parse c spec cmd =
    (case parse spec of
       Some err \<Rightarrow> (Inl err, c)
     | None \<Rightarrow>
         (let entryID = nextID c + 1
          in (Inr entryID,
              c\<lparr>nextID := entryID, cron_entries := cron_entries c @ [(entryID, spec, cmd)]\<rparr>)))"

definition cron_Remove :: "Cron \<Rightarrow> nat \<Rightarrow> Cron" where
  "cron_Remove c entryID = c\<lparr>cron_entries := filter (\<lambda>e. fst e \<noteq> entryID) (cron_entries c)\<rparr>"

definition cron_Start :: "Cron \<Rightarrow> Cron" where
  "cron_Start c = c\<lparr>running := True\<rparr>"

definition cron_Stop :: "Cron \<Rightarrow> Cron" where
  "cron_Stop c = c\<lparr>running := False\<rparr>"

text \<open>The jobs the wheel dispatches when their instants come, with their schedules.\<close>

definition fires :: "Cron \<Rightarrow> (string \<times> string) list" where
  "fires c = (if running c then map (\<lambda>(entryID, spec, job). (Name job, spec)) (cron_entries c) else [])"

record cronScheduler =
  cron :: Cron
  jobs :: "string \<rightharpoonup> nat"

definition NewCronScheduler :: cronScheduler where
  "NewCronScheduler = \<lparr>cron = \<lparr>cron_entries = [], nextID = 0, running = False\<rparr>, jobs = Map.empty\<rparr>"

definition AddJob :: "(string \<Rightarrow> go_error option) \<Rightarrow> cronScheduler \<Rightarrow> Job \<Rightarrow> go_error option \<times> cronScheduler" where
  "AddJob parse s job =
    (let s1 = (case jobs s (Name job) of
                 Some entryID \<Rightarrow> s\<lparr>cron := cron_Remove (cron s) entryID\<rparr>
               | None \<Rightarrow> s)
     in (case cron_AddJob parse (cron s1) (CronExpr job) job of
           (Inl err, c) \<Rightarrow> (Some err, s1\<lparr>cron := c\<rparr>)
         | (Inr entryID, c) \<Rightarrow> (None, s1\<lparr>cron := c, jobs := (jobs s1)(Name job \<mapsto> entryID)\<rparr>)))"

definition RemoveJob :: "cronScheduler \<Rightarrow> string \<Rightarrow> cronScheduler" where
  "RemoveJob s name =
    (case jobs s name of
       Some entryID \<Rightarrow> s\<lparr>cron := cron_Remove (cron s) entryID, jobs := (jobs s)(name := None)\<rparr>
     | None \<Rightarrow> s)"

text \<open>\<^verbatim>\<open>cronScheduler.Stop\<close> has an empty body.\<close>

definition cronScheduler_Stop :: "cronScheduler \<Rightarrow> cronScheduler" where
  "cronScheduler_Stop s = s"

text \<open>
  \<^verbatim>\<open>cronScheduler.Start(ctx)\<close> starts the wheel and then waits for \<^verbatim>\<open>ctx.Done()\<close>; only then
  does it stop the wheel. The two halves are two steps of the model.
\<close>

definition cronScheduler_Start :: "cronScheduler \<Rightarrow> cronScheduler" where
  "cronScheduler_Start s = s\<lparr>cron := cron_Start (cron s)\<rparr>"

definition cronScheduler_ctx_done :: "cronScheduler \<Rightarrow> cronScheduler" where
  "cronScheduler_ctx_done s = s\<lparr>cron := cron_Stop (cron s)\<rparr>"

section \<open>The scheduler service (internal/usecase/schedular_service.go)\<close>

text \<open>The \<^verbatim>\<open>for\<close> loop of \<^verbatim>\<open>runSchedular\<close> over the listed jobs returns at the first error.\<close>

fun AddJobs :: "(string \<Rightarrow> go_error option) \<Rightarrow> cronScheduler \<Rightarrow> Job list \<Rightarrow> go_error option \<times> cronScheduler" where
  "AddJobs parse s [] = (None, s)"
| "AddJobs parse s (job # rest) =
    (case AddJob parse s job of
       (Some err, s1) \<Rightarrow> (Some err, s1)
     | (None, s1) \<Rightarrow> AddJobs parse s1 rest)"

text \<open>
  \<^verbatim>\<open>runSchedular\<close>, given what \<^verbatim>\<open>jobRepo.List\<close> answers. The goroutine it starts runs
  \<^verbatim>\<open>schedular.Start(ctx)\<close>, whose first half takes effect here.
\<close>

definition runSchedular :: "(string \<Rightarrow> go_error option) \<Rightarrow> cronScheduler \<Rightarrow> go_error + Job list \<Rightarrow> cronScheduler" where
  "runSchedular parse s listed =
    (case listed of
       Inl err \<Rightarrow> s
     | Inr js \<Rightarrow>
         (case AddJobs parse s js of
            (Some err, s1) \<Rightarrow> s1
          | (None, s1) \<Rightarrow> cronScheduler_Start s1))"

text \<open>
  One turn of the supervisor loop, as the environment decides it: the root context is
  already done at the outer \<^verbatim>\<open>select\<close>; or \<^verbatim>\<open>Campaign\<close> fails; or \<^verbatim>\<open>Campaign\<close> succeeds,
  \<^verbatim>\<open>jobRepo.List\<close> answers, and later one case of the inner \<^verbatim>\<open>select\<close> becomes ready.
\<close>

datatype signal = LeadershipLost | CtxDone

datatype turn =
    CtxDoneAtTop
  | CampaignFailed go_error
  | Campaigned "go_error + Job list" signal

datatype svc_event = CampaignCall | Sleep5s | StopCall

definition Canceled :: go_error where
  "Canceled = Plain ''context canceled''"

text \<open>
  \<^verbatim>\<open>SchedularService.Start\<close> over the turns the environment gives it: the value it returns
  (\<open>None\<close> while the loop is still running, waiting in \<^verbatim>\<open>Campaign\<close>), the scheduler, and the
  calls it made. Cancelling the root context also wakes the goroutines waiting in
  \<^verbatim>\<open>cronScheduler.Start\<close>.
\<close>

fun SchedularService_Start ::
  "(string \<Rightarrow> go_error option) \<Rightarrow> cronScheduler \<Rightarrow> turn list
     \<Rightarrow> go_error option \<times> cronScheduler \<times> svc_event list" where
  "SchedularService_Start parse s [] = (None, s, [CampaignCall])"
| "SchedularService_Start parse s (CtxDoneAtTop # rest) =
    (Some Canceled, cronScheduler_ctx_done (cronScheduler_Stop s), [StopCall])"
| "SchedularService_Start parse s (CampaignFailed err # rest) =
    (case SchedularService_Start parse s rest of
       (r, s1, evs) \<Rightarrow> (r, s1, CampaignCall # Sleep5s # evs))"
| "SchedularService_Start parse s (Campaigned listed LeadershipLost # rest) =
    (let s1 = runSchedular parse s listed;
         s2 = cronScheduler_Stop s1
     in (case SchedularService_Start parse s2 rest of
           (r, s3, evs) \<Rightarrow> (r, s3, CampaignCall # StopCall # evs)))"
| "SchedularService_Start parse s (Campaigned listed CtxDone # rest) =
    (let s1 = runSchedular parse s listed;
         s2 = cronScheduler_Stop s1
     in (Some Canceled, cronScheduler_ctx_done s2, [CampaignCall, StopCall]))"

section \<open>The wheel and the table of the schedule engine\<close>



section \<open>What \<^verbatim>\<open>Validate\<close> checks, in the words of the data model\<close>

text \<open>
  The conditions under which \<^verbatim>\<open>Validate\<close> returns \<^verbatim>\<open>nil\<close>, and the job it leaves: the method
  of an http job defaults to \<^verbatim>\<open>GET\<close>, the concurrency policy to \<^verbatim>\<open>Allow\<close>.
\<close>

definition Validate_accepts :: "Job \<Rightarrow> bool" where
  "Validate_accepts j \<longleftrightarrow>
     1 \<le> length (Name j) \<and> CronExpr j \<noteq> '''' \<and>
     (ExecutorType j = ''http'' \<and> URL (Executor j) \<noteq> ''''
      \<or> ExecutorType j = ''shell'' \<and> Command (Executor j) \<noteq> '''')"

definition Validate_defaults :: "Job \<Rightarrow> Job" where
  "Validate_defaults j =
     j\<lparr>Executor := (if ExecutorType j = ''http'' \<and> Method (Executor j) = ''''
                     then (Executor j)\<lparr>Method := ''GET''\<rparr> else Executor j),
       ConcurrencyPolicy := (if ConcurrencyPolicy j = '''' then ''Allow'' else ConcurrencyPolicy j)\<rparr>"

section \<open>Concrete jobs and environments\<close>

definition job_with_long_name :: Job where
  "job_with_long_name =
    \<lparr>ID = '''', Name = replicate 129 (CHR ''a''), CronExpr = ''*/5 * * * * *'',
     ExecutorType = ''shell'',
     Executor = \<lparr>URL = '''', Method = '''', Command = ''true''\<rparr>,
     ConcurrencyPolicy = '''', RetryPolicy = None, CreatedAt = 0, UpdatedAt = 0\<rparr>"

definition nightly_job :: Job where
  "nightly_job =
    \<lparr>ID = ''42'', Name = ''nightly'', CronExpr = ''0 0 3 * * *'', ExecutorType = ''shell'',
     Executor = \<lparr>URL = '''', Method = '''', Command = ''backup.sh''\<rparr>,
     ConcurrencyPolicy = ''Forbid'', RetryPolicy = None, CreatedAt = 1, UpdatedAt = 1\<rparr>"

definition tick_job :: Job where
  "tick_job =
    \<lparr>ID = ''9'', Name = ''tick'', CronExpr = ''*/1 * * * * *'', ExecutorType = ''shell'',
     Executor = \<lparr>URL = '''', Method = '''', Command = ''date''\<rparr>,
     ConcurrencyPolicy = ''Allow'', RetryPolicy = None, CreatedAt = 1, UpdatedAt = 1\<rparr>"

definition retry_twice_job :: Job where
  "retry_twice_job =
    \<lparr>ID = ''7'', Name = ''ping'', CronExpr = ''*/5 * * * * *'', ExecutorType = ''http'',
     Executor = \<lparr>URL = ''http://cron.invalid/5xx'', Method = ''GET'', Command = ''''\<rparr>,
     ConcurrencyPolicy = ''Allow'',
     RetryPolicy = Some \<lparr>MaxRetries = 2, Backoff = 1000000000\<rparr>,
     CreatedAt = 1, UpdatedAt = 1\<rparr>"

text \<open>Three servers' worth of answers to the HTTP executor.\<close>

definition always_503 :: "nat \<Rightarrow> attempt" where
  "always_503 k = Response 503 ''503 Service Unavailable'' ''busy''"

text \<open>The host does not resolve: a \<^verbatim>\<open>*url.Error\<close> whose \<^verbatim>\<open>Timeout()\<close> is false and whose message quotes the URL.\<close>

definition no_such_host :: "nat \<Rightarrow> attempt" where
  "no_such_host k =
     DoFailed (NetErr (''Get '' @ [CHR 0x22] @ ''http://cron.invalid/5xx'' @ [CHR 0x22]
                       @ '': dial tcp: lookup cron.invalid: no such host'') False)"

definition not_found_5xx_phrase :: "nat \<Rightarrow> attempt" where
  "not_found_5xx_phrase k = Response 404 ''404 No 5xx Here'' ''''"

text \<open>
  An etcd that does not answer a \<^verbatim>\<open>TryLock\<close> before its deadline, and one that answers every
  request.
\<close>

definition slow_etcd :: etcd_world where
  "slow_etcd =
    \<lparr>NewSession = Inr 7, TryLock_fails = (\<lambda>c key. Some DeadlineExceeded),
     Unlock_fails = None, Close_fails = None\<rparr>"

definition free_etcd :: etcd_world where
  "free_etcd =
    \<lparr>NewSession = Inr 7, TryLock_fails = (\<lambda>c key. None), Unlock_fails = None, Close_fails = None\<rparr>"

text \<open>A worker's server on an etcd in which no mutex is held, with a shell executor that panics.\<close>

definition panicking_server :: "etcd_world \<Rightarrow> Server" where
  "panicking_server etcd =
    \<lparr>executors = [''shell'' \<mapsto> (\<lambda>job. Panics ''nil pointer dereference'')],
     locker = etcd_locker etcd Map.empty, workerID = ''worker-1''\<rparr>"

definition store_down_world :: run_world where
  "store_down_world =
    \<lparr>now_start = 100, now_end = 105,
     save_initial = Some (Plain ''etcdserver: request timed out''), save_final = None\<rparr>"



text \<open>An id generator that never repeats, and a worker process that has done nothing yet.\<close>

definition numbered_ids :: "nat \<Rightarrow> string" where
  "numbered_ids n = ''id-'' @ replicate n (CHR ''i'')"


definition seconds_String :: "duration \<Rightarrow> string" where
  "seconds_String dur = show_int (dur div 1000000000) @ ''s''"

definition one_worker :: Dispatcher where
  "one_worker = \<lparr>discovery = [(''/cron/workers/w1'', ''10.0.0.7:50052'')], clients = {}\<rparr>"

definition refusing_worker :: dispatch_world where
  "refusing_worker =
    \<lparr>rand_Intn = (\<lambda>n. 0), grpc_NewClient = (\<lambda>addr. None),
     rpc_ExecuteTask = (\<lambda>addr taskReq. Some (Plain ''rpc error: code = Unavailable''))\<rparr>"

text \<open>A stand-in for the cron parser: it accepts the expressions of six fields.\<close>

definition six_fields :: "string \<Rightarrow> go_error option" where
  "six_fields spec =
    (if length (filter (\<lambda>c. c = CHR '' '') spec) = 5 then None
     else Some (Plain (''expected exactly 6 fields: '' @ spec)))"

section \<open>The shell executor's output\<close>

text \<open>
  Claim C7. For every shell job, the output \<^verbatim>\<open>Execute\<close> returns is
  \<^verbatim>\<open>"[STDERR]:\n" ++ stderr ++ "\n[STDOUT]:\n" ++ stdout\<close> when both buffers are non-empty,
  \<^verbatim>\<open>"[STDERR]:\n" ++ stderr\<close> when only stderr is non-empty, and stdout otherwise; when the
  command fails (\<^verbatim>\<open>cmd.Run\<close> returns an error, as it does on a non-zero exit) this output is
  returned together with an error that wraps the failure, and with \<^verbatim>\<open>nil\<close> otherwise.
\<close>

theorem shell_Execute_combined_output:
  assumes "run_bash (Command (Executor job)) = \<lparr>stdout = out, stderr = errOut, run_err = e\<rparr>"
  shows "fst (shell_Execute run_bash job) =
           (if errOut \<noteq> '''' \<and> out \<noteq> ''''
              then ''[STDERR]:'' @ [newline] @ errOut @ [newline] @ ''[STDOUT]:'' @ [newline] @ out
            else if errOut \<noteq> '''' then ''[STDERR]:'' @ [newline] @ errOut
            else out)
       \<and> snd (shell_Execute run_bash job) =
           (case e of Some err \<Rightarrow> Some (Wrap ''shell command failed: '' err) | None \<Rightarrow> None)"
  using assms by (auto simp: shell_Execute_def Let_def split: option.splits)

theorem shell_Execute_combined_output_witness:
  "shell_Execute (\<lambda>c. \<lparr>stdout = ''hi'', stderr = ''warn'', run_err = Some (Plain ''exit status 1'')\<rparr>)
      nightly_job
   = (''[STDERR]:'' @ [CHR 0x0A] @ ''warn'' @ [CHR 0x0A] @ ''[STDOUT]:'' @ [CHR 0x0A] @ ''hi'',
      Some (Wrap ''shell command failed: '' (Plain ''exit status 1'')))"
  using shell_Execute_combined_output
    [where run_bash = "\<lambda>c. \<lparr>stdout = ''hi'', stderr = ''warn'', run_err = Some (Plain ''exit status 1'')\<rparr>"
      and job = nightly_job and out = "''hi''" and errOut = "''warn''"
      and e = "Some (Plain ''exit status 1'')"]
  by (simp add: prod_eq_iff newline_def)

section \<open>Job validation\<close>

text \<open>
  Claim C6, as stated, has \<^verbatim>\<open>Validate\<close> reject a name longer than 128 characters.
  \<^verbatim>\<open>Validate\<close> compares the name with the empty string only: a shell job whose name has 129
  characters is accepted (the bound of 128 is a tag of the API's request type).
\<close>

theorem Validate_long_name_counterexample:
  "length (Name job_with_long_name) = 129
   \<and> Validate job_with_long_name = Inr (job_with_long_name\<lparr>ConcurrencyPolicy := ''Allow''\<rparr>)"
  by (simp add: job_with_long_name_def Validate_def ExecutorTypeHTTP_def ExecutorTypeShell_def
      ConcurrencyPolicyAllow_def)

text \<open>
  Claim C6, amended. \<^verbatim>\<open>Validate\<close> accepts a job exactly when its name has length at least 1
  (with no upper bound), its cron expression is non-empty, and it is an http job with a
  non-empty URL or a shell job with a non-empty command; on acceptance an empty method of
  an http job has become \<^verbatim>\<open>GET\<close> and an empty concurrency policy \<^verbatim>\<open>Allow\<close>, and nothing else
  has changed; every other job, an executor type outside http and shell included, is
  rejected with an error.
\<close>

theorem Validate_accepts_iff:
  "(Validate_accepts j \<longrightarrow> Validate j = Inr (Validate_defaults j))
   \<and> (\<not> Validate_accepts j \<longrightarrow> (\<exists>err. Validate j = Inl err))"
  by (auto simp: Validate_def Validate_accepts_def Validate_defaults_def Let_def
      ExecutorTypeHTTP_def ExecutorTypeShell_def ConcurrencyPolicyAllow_def Suc_le_eq)

theorem Validate_accepts_iff_witness:
  "Validate_accepts job_with_long_name
   \<and> Validate job_with_long_name = Inr (Validate_defaults job_with_long_name)
   \<and> \<not> Validate_accepts (job_with_long_name\<lparr>Name := ''''\<rparr>)
   \<and> (\<exists>err. Validate (job_with_long_name\<lparr>Name := ''''\<rparr>) = Inl err)"
  using Validate_accepts_iff [of job_with_long_name]
    Validate_accepts_iff [of "job_with_long_name\<lparr>Name := ''''\<rparr>"]
  by (simp add: Validate_accepts_def job_with_long_name_def)

section \<open>The HTTP executor's retry loop\<close>

lemma Contains_append: "Contains p sub \<Longrightarrow> Contains (p @ s) sub"
proof (induction p)
  case Nil
  then show ?case by (cases s) auto
next
  case (Cons c cs)
  show ?case
  proof (cases "take (length sub) (c # cs) = sub")
    case True
    then have "length (take (length sub) (c # cs)) = length sub"
      by (rule arg_cong)
    then have "length sub \<le> length (c # cs)"
      by auto
    then have "length sub - length (c # cs) = 0"
      by simp
    then have "take (length sub) ((c # cs) @ s) = take (length sub) (c # cs)"
      by (simp only: take_append take_0 append_Nil2)
    with True have "take (length sub) ((c # cs) @ s) = sub"
      by (simp only:)
    then show ?thesis by simp
  next
    case False
    with Cons.prems have "Contains cs sub" by simp
    then have "Contains (cs @ s) sub" by (rule Cons.IH)
    then show ?thesis by simp
  qed
qed

lemma retriable_5xx_status:
  "retriable (Plain (''http request returned 5xx server error: '' @ status))"
proof -
  have "Contains (''http request returned 5xx server error: '' @ status) ''5xx''"
    by (rule Contains_append) simp
  then show ?thesis
    by (simp only: retriable_def error_string.simps if_True if_cancel)
qed

lemma fails_retriable:
  "fails_5xx_or_timeout a \<Longrightarrow> \<exists>out e. doExecute a = (out, Some e) \<and> retriable e"
proof (cases a)
  case (NewRequestFailed x1)
  assume "fails_5xx_or_timeout a"
  with NewRequestFailed show ?thesis by simp
next
  case (DoFailed err)
  assume "fails_5xx_or_timeout a"
  with DoFailed show ?thesis by (simp add: retriable_def)
next
  case (Response code status body)
  assume "fails_5xx_or_timeout a"
  with Response show ?thesis using retriable_5xx_status by (simp add: Let_def)
qed

lemma Execute_loop_all_retriable:
  "i \<le> MaxRetries rp \<Longrightarrow> 0 \<le> i \<Longrightarrow>
   (\<forall>k. nat i \<le> k \<and> k \<le> nat (MaxRetries rp) \<longrightarrow> fails_5xx_or_timeout (world k)) \<Longrightarrow>
   fst (Execute_loop world rp i lastErr tr) = Exhausted (snd (doExecute (world (nat (MaxRetries rp)))))"
proof (induction world rp i lastErr tr rule: Execute_loop.induct)
  case (1 world rp i lastErr tr)
  from "1.prems" have "fails_5xx_or_timeout (world (nat i))" by simp
  then obtain out e where de: "doExecute (world (nat i)) = (out, Some e)" and re: "retriable e"
    using fails_retriable by blast
  show ?case
  proof (cases "i = MaxRetries rp")
    case True
    with de re "1.prems" show ?thesis
      by (subst Execute_loop.simps) simp
  next
    case False
    with "1.prems" have lt: "i + 1 \<le> MaxRetries rp" "0 \<le> i + 1" by simp_all
    have all: "\<forall>k. nat (i + 1) \<le> k \<and> k \<le> nat (MaxRetries rp) \<longrightarrow> fails_5xx_or_timeout (world k)"
      using "1.prems" by auto
    have "fst (Execute_loop world rp (i + 1) (Some e) ((tr @ [Attempt (nat i)]) @ [Sleep (Backoff rp)]))
          = Exhausted (snd (doExecute (world (nat (MaxRetries rp)))))"
      using "1.IH" [OF "1.prems"(1) refl de [symmetric] refl refl re False lt all] by simp
    with de re False "1.prems" show ?thesis
      by (subst Execute_loop.simps) simp
  qed
qed

lemma show_int_2: "show_int 2 = ''2''"
  by code_simp

text \<open>
  Claim C10. For every HTTP job whose retry policy has \<^verbatim>\<open>max_retries > 0\<close> and whose
  attempts all fail with a status of 500 or more or with a network timeout, \<^verbatim>\<open>Execute\<close>
  returns the empty string as its output, whatever body the last attempt read, together
  with the error \<^verbatim>\<open>job failed after N retries: ...\<close> that wraps the last attempt's error.
\<close>

theorem http_Execute_exhausted_output_empty:
  assumes "RetryPolicy job = Some rp" and "0 < MaxRetries rp"
    and "\<forall>k. k \<le> nat (MaxRetries rp) \<longrightarrow> fails_5xx_or_timeout (world k)"
  shows "\<exists>body e. doExecute (world (nat (MaxRetries rp))) = (body, Some e)
           \<and> fst (http_Execute world job) =
               ('''', Some (Wrap (''job failed after '' @ show_int (MaxRetries rp) @ '' retries: '') e))"
proof -
  from assms(3) obtain body e where de: "doExecute (world (nat (MaxRetries rp))) = (body, Some e)"
    using fails_retriable by blast
  have "fst (Execute_loop world rp 0 None []) = Exhausted (snd (doExecute (world (nat (MaxRetries rp)))))"
    using assms by (intro Execute_loop_all_retriable) auto
  then obtain tr where "Execute_loop world rp 0 None [] = (Exhausted (Some e), tr)"
    using de by (cases "Execute_loop world rp 0 None []") auto
  with assms(1,2) de show ?thesis by (simp add: http_Execute_def)
qed

theorem http_Execute_exhausted_output_empty_witness:
  "fst (doExecute (always_503 2)) = ''busy''
   \<and> fst (http_Execute always_503 retry_twice_job) =
       ('''', Some (Wrap ''job failed after 2 retries: ''
                     (Plain ''http request returned 5xx server error: 503 Service Unavailable'')))"
  using http_Execute_exhausted_output_empty
    [of retry_twice_job "\<lparr>MaxRetries = 2, Backoff = 1000000000\<rparr>" always_503]
  by (simp add: retry_twice_job_def always_503_def show_int_2)

text \<open>
  Claim C4 has an attempt's error retriable exactly when the status was 500 or more or
  the error is a network timeout, and has \<^verbatim>\<open>Execute\<close> stop at the first other error. The
  loop recognises a server error by the text \<^verbatim>\<open>5xx\<close> occurring anywhere in the error's
  message, and the message also carries the URL or the server's status line. With two
  retries allowed, a host that does not resolve (no response, no timeout) under a URL
  containing \<^verbatim>\<open>5xx\<close> is tried three times with two sleeps, and so is a 404 whose reason
  phrase contains \<^verbatim>\<open>5xx\<close>; the claim allows one attempt in both.
\<close>

theorem http_Execute_retries_non_5xx_non_timeout:
  "\<not> fails_5xx_or_timeout (no_such_host 0)
   \<and> snd (http_Execute no_such_host retry_twice_job) =
       [Attempt 0, Sleep 1000000000, Attempt 1, Sleep 1000000000, Attempt 2]
   \<and> \<not> fails_5xx_or_timeout (not_found_5xx_phrase 0)
   \<and> snd (http_Execute not_found_5xx_phrase retry_twice_job) =
       [Attempt 0, Sleep 1000000000, Attempt 1, Sleep 1000000000, Attempt 2]"
  by code_simp

section \<open>The worker: one execution and its record\<close>

lemma run_executor_events:
  "body_events (run_executor s job evs lk) = evs
   \<or> body_events (run_executor s job evs lk) = evs @ [ExecuteCall (ExecutorType job)]"
  by (simp add: run_executor_def split: option.splits exec_outcome.splits)

lemma run_executor_lock: "body_lock (run_executor s job evs lk) = lk"
  by (simp add: run_executor_def split: option.splits exec_outcome.splits)

lemma runJob_body_events:
  "body_events (runJob_body s job) \<in>
     {[], [ExecuteCall (ExecutorType job)],
      [LockCall (Some 2000) (Name job)],
      [LockCall (Some 2000) (Name job), ExecuteCall (ExecutorType job)]}"
  using run_executor_events [of s job "[]" None]
    run_executor_events [of s job "[LockCall (Some 2000) (Name job)]"]
  by (auto simp: runJob_body_def WithTimeout_def Let_def split: lock_outcome.splits)

lemma runJob_body_no_Save: "Save r x \<notin> set (body_events (runJob_body s job))"
  using runJob_body_events [of s job] by auto

lemma runJob_events_shape:
  "\<exists>unlock metric.
     fst (runJob s w eid job) =
       Save \<lparr>exec_ID = eid, JobName = Name job, StartTime = now_start w, EndTime = 0,
             Status = ExecutionStatusRunning, Output = '''', Error = '''',
             RetriesAttempted = 0, WorkerID = workerID s\<rparr> (save_initial w)
       # (body_events (runJob_body s job) @ unlock @ [MetricInc (Name job) metric])
       @ [Save (snd (runJob s w eid job)) (save_final w)]
     \<and> unlock = (case body_lock (runJob_body s job) of
                   Some lk \<Rightarrow> [UnlockCall (Some 5000) (lock_name lk)] | None \<Rightarrow> [])"
  by (auto simp: runJob_def Let_def WithTimeout_def split: option.splits)

lemma runJob_final_record:
  "snd (runJob s w eid job) =
     \<lparr>exec_ID = eid, JobName = Name job, StartTime = now_start w, EndTime = now_end w,
      Status = (case body_panic (runJob_body s job) of
                  Some v \<Rightarrow> ExecutionStatusFailed
                | None \<Rightarrow> (case body_execErr (runJob_body s job) of
                             Some e \<Rightarrow> ExecutionStatusFailed | None \<Rightarrow> ExecutionStatusSuccess)),
      Output = (case body_output (runJob_body s job) of Some out \<Rightarrow> out | None \<Rightarrow> ''''),
      Error = (case body_panic (runJob_body s job) of
                 Some v \<Rightarrow> ''panic: '' @ v
               | None \<Rightarrow> (case body_execErr (runJob_body s job) of
                            Some e \<Rightarrow> error_string e | None \<Rightarrow> '''')),
      RetriesAttempted = 0, WorkerID = workerID s\<rparr>"
  by (auto simp: runJob_def Let_def split: option.splits)

text \<open>
  Claim C3. For every execution of \<^verbatim>\<open>runJob\<close>, under a clock that is not zero and does not
  go back: the first thing done is to save the record with status \<^verbatim>\<open>running\<close> and a zero end
  time, before any executor is called; the last thing done, on every path (return, error,
  skip, panic), is to save the record again, and no other save happens between; the record
  saved last has status \<^verbatim>\<open>success\<close> or \<^verbatim>\<open>failed\<close> and an end time that is not zero, is not before the
  start time, and is the reading of the clock taken at that last save; a panic gives status
  \<^verbatim>\<open>failed\<close> and the error \<^verbatim>\<open>panic: \<close> followed by the panic value; and whether the first save
  fails changes nothing of what follows it.
\<close>

theorem runJob_record_lifecycle:
  assumes "0 < now_start w" and "now_start w \<le> now_end w"
  shows "\<exists>record0 mid.
      fst (runJob s w eid job) =
        Save record0 (save_initial w) # mid @ [Save (snd (runJob s w eid job)) (save_final w)]
    \<and> Status record0 = ExecutionStatusRunning \<and> EndTime record0 = 0
    \<and> (\<forall>r x. Save r x \<notin> set mid)
    \<and> Status (snd (runJob s w eid job)) \<in> {ExecutionStatusSuccess, ExecutionStatusFailed}
    \<and> StartTime (snd (runJob s w eid job)) \<le> EndTime (snd (runJob s w eid job))
    \<and> EndTime (snd (runJob s w eid job)) \<noteq> 0
    \<and> EndTime (snd (runJob s w eid job)) = now_end w
    \<and> (\<forall>v. body_panic (runJob_body s job) = Some v \<longrightarrow>
           Status (snd (runJob s w eid job)) = ExecutionStatusFailed
         \<and> Error (snd (runJob s w eid job)) = ''panic: '' @ v)
    \<and> (\<forall>x. tl (fst (runJob s (w\<lparr>save_initial := x\<rparr>) eid job)) = tl (fst (runJob s w eid job))
           \<and> snd (runJob s (w\<lparr>save_initial := x\<rparr>) eid job) = snd (runJob s w eid job))"
proof -
  obtain unlock metric where shape:
    "fst (runJob s w eid job) =
       Save \<lparr>exec_ID = eid, JobName = Name job, StartTime = now_start w, EndTime = 0,
             Status = ExecutionStatusRunning, Output = '''', Error = '''',
             RetriesAttempted = 0, WorkerID = workerID s\<rparr> (save_initial w)
       # (body_events (runJob_body s job) @ unlock @ [MetricInc (Name job) metric])
       @ [Save (snd (runJob s w eid job)) (save_final w)]"
    and unlock: "unlock = (case body_lock (runJob_body s job) of
                   Some lk \<Rightarrow> [UnlockCall (Some 5000) (lock_name lk)] | None \<Rightarrow> [])"
    using runJob_events_shape [of s w eid job] by blast
  have no_save: "\<forall>r x. Save r x \<notin> set (body_events (runJob_body s job) @ unlock @ [MetricInc (Name job) metric])"
    using runJob_body_no_Save [of _ _ s job] unlock by (auto split: option.splits)
  have status: "Status (snd (runJob s w eid job)) \<in> {ExecutionStatusSuccess, ExecutionStatusFailed}"
    by (simp add: runJob_final_record split: option.splits)
  have times: "StartTime (snd (runJob s w eid job)) \<le> EndTime (snd (runJob s w eid job))"
    "EndTime (snd (runJob s w eid job)) \<noteq> 0" "EndTime (snd (runJob s w eid job)) = now_end w"
    using assms by (simp_all add: runJob_final_record)
  have panic: "\<forall>v. body_panic (runJob_body s job) = Some v \<longrightarrow>
           Status (snd (runJob s w eid job)) = ExecutionStatusFailed
         \<and> Error (snd (runJob s w eid job)) = ''panic: '' @ v"
    by (simp add: runJob_final_record)
  have indep: "\<forall>x. tl (fst (runJob s (w\<lparr>save_initial := x\<rparr>) eid job)) = tl (fst (runJob s w eid job))
           \<and> snd (runJob s (w\<lparr>save_initial := x\<rparr>) eid job) = snd (runJob s w eid job)"
    by (simp add: runJob_def Let_def split: option.splits prod.splits)
  from shape no_save status times panic indep show ?thesis
    by (intro exI conjI) (assumption | simp)+
qed

theorem runJob_record_lifecycle_witness:
  "0 < now_start store_down_world \<and> now_start store_down_world \<le> now_end store_down_world
   \<and> body_panic (runJob_body (panicking_server free_etcd) nightly_job) = Some ''nil pointer dereference''
   \<and> Status (snd (runJob (panicking_server free_etcd) store_down_world ''e-1'' nightly_job)) = ''failed''
   \<and> Error (snd (runJob (panicking_server free_etcd) store_down_world ''e-1'' nightly_job))
       = ''panic: nil pointer dereference''
   \<and> EndTime (snd (runJob (panicking_server free_etcd) store_down_world ''e-1'' nightly_job)) = 105"
proof -
  have clock: "0 < now_start store_down_world" "now_start store_down_world \<le> now_end store_down_world"
    by (simp_all add: store_down_world_def)
  have panic: "body_panic (runJob_body (panicking_server free_etcd) nightly_job)
                 = Some ''nil pointer dereference''"
    by (simp add: panicking_server_def free_etcd_def nightly_job_def runJob_body_def
        run_executor_def etcd_locker_def etcdLocker_Lock_def mutex_TryLock_def WithTimeout_def
        Let_def ConcurrencyPolicyForbid_def)
  from runJob_record_lifecycle [OF clock, of "panicking_server free_etcd" "''e-1''" nightly_job]
  show ?thesis
    using clock panic by (auto simp: ExecutionStatusFailed_def store_down_world_def)
qed

section \<open>The worker: the lock of a Forbid job\<close>

lemma etcd_locker_acquired:
  assumes "etcd_locker etcd tbl c name = LockAcquired lk"
  shows "\<exists>session. NewSession etcd = Inr session \<and> lock_name lk = name
           \<and> snd (etcdLocker_Lock etcd tbl c name) = tbl(LockPrefix @ name \<mapsto> session)"
  using assms
  by (auto simp: etcd_locker_def etcdLocker_Lock_def mutex_TryLock_def Let_def
      split: sum.splits option.splits if_splits)

lemma etcdLock_Unlock_releases:
  assumes "Unlock_fails etcd = None \<or> Close_fails etcd = None"
    and "tbl (LockPrefix @ name) = Some session"
  shows "snd (etcdLock_Unlock etcd session name tbl) (LockPrefix @ name) = None"
  using assms
  by (auto simp: etcdLock_Unlock_def mutex_Unlock_def session_Close_def split: option.splits)

text \<open>
  Claim C1, as stated, has a skipped execution end with the error
  \<^verbatim>\<open>skipped execution: LockNotAcquired\<close>. The error recorded is \<^verbatim>\<open>skipped execution: \<close> followed by
  the message of the locker's error, and the message of \<^verbatim>\<open>ErrLockNotAcquired\<close> is
  \<^verbatim>\<open>lock not acquired\<close>: so it is when etcd does not answer the try before its deadline.
\<close>

theorem runJob_skip_message_counterexample:
  "ConcurrencyPolicy nightly_job = ConcurrencyPolicyForbid
   \<and> locker (panicking_server slow_etcd) (Some 2000) (Name nightly_job)
       = LockFailed ErrLockNotAcquired
   \<and> Error (snd (runJob (panicking_server slow_etcd) store_down_world ''e-1'' nightly_job))
       = ''skipped execution: lock not acquired''
   \<and> Error (snd (runJob (panicking_server slow_etcd) store_down_world ''e-1'' nightly_job))
       \<noteq> ''skipped execution: LockNotAcquired''"
  by (simp add: nightly_job_def panicking_server_def slow_etcd_def store_down_world_def
      runJob_def runJob_body_def etcd_locker_def etcdLocker_Lock_def mutex_TryLock_def
      session_Close_def WithTimeout_def Let_def ConcurrencyPolicyForbid_def ErrLockNotAcquired_def)

text \<open>
  Claim C1, amended. For every job with concurrency policy \<^verbatim>\<open>Forbid\<close>, the first thing \<^verbatim>\<open>runJob\<close>
  does after saving the running record, and before any executor is called, is to call the
  locker for the job's name under a deadline of 2 seconds. Whenever the locker returns an
  error, the execution ends with status \<^verbatim>\<open>failed\<close> and the error \<^verbatim>\<open>skipped execution: \<close> followed
  by the locker's message, which for \<^verbatim>\<open>ErrLockNotAcquired\<close> is
  \<^verbatim>\<open>skipped execution: lock not acquired\<close>, and no executor is called. Whenever the lock is
  acquired, it is released on every path: \<^verbatim>\<open>Unlock\<close> is called exactly once, after the executor
  if one ran and before the final save, whether no executor was found or the executor
  returned, failed or panicked; and with the etcd locker, on an etcd that answers the
  mutex's \<^verbatim>\<open>Unlock\<close> or the session's \<^verbatim>\<open>Close\<close>, no session holds the job's mutex key once etcd has
  served the calls of the run.
\<close>

theorem runJob_forbid_lock_gate:
  assumes "ConcurrencyPolicy job = ConcurrencyPolicyForbid"
  shows "\<exists>record0.
      Status record0 = ExecutionStatusRunning
    \<and> (\<exists>rest. fst (runJob s w eid job) =
          Save record0 (save_initial w) # LockCall (Some 2000) (Name job) # rest)
    \<and> (\<forall>err. locker s (Some 2000) (Name job) = LockFailed err \<longrightarrow>
          Status (snd (runJob s w eid job)) = ExecutionStatusFailed
        \<and> Error (snd (runJob s w eid job)) = ''skipped execution: '' @ error_string err
        \<and> fst (runJob s w eid job) =
            [Save record0 (save_initial w), LockCall (Some 2000) (Name job),
             MetricInc (Name job) ''failed'', Save (snd (runJob s w eid job)) (save_final w)])
    \<and> (locker s (Some 2000) (Name job) = LockFailed ErrLockNotAcquired \<longrightarrow>
          Error (snd (runJob s w eid job)) = ''skipped execution: lock not acquired'')
    \<and> (\<forall>lk. locker s (Some 2000) (Name job) = LockAcquired lk \<longrightarrow>
          (\<exists>mid metric.
             fst (runJob s w eid job) =
               [Save record0 (save_initial w), LockCall (Some 2000) (Name job)] @ mid
               @ [UnlockCall (Some 5000) (lock_name lk), MetricInc (Name job) metric,
                  Save (snd (runJob s w eid job)) (save_final w)]
           \<and> (mid = [] \<or> mid = [ExecuteCall (ExecutorType job)])))
    \<and> (\<forall>etcd tbl lk.
          locker s = etcd_locker etcd tbl
          \<and> locker s (Some 2000) (Name job) = LockAcquired lk
          \<and> (Unlock_fails etcd = None \<or> Close_fails etcd = None) \<longrightarrow>
          etcd_serves etcd tbl (fst (runJob s w eid job)) (LockPrefix @ Name job) = None)"
proof -
  let ?record0 = "\<lparr>exec_ID = eid, JobName = Name job, StartTime = now_start w, EndTime = 0,
             Status = ExecutionStatusRunning, Output = '''', Error = '''',
             RetriesAttempted = 0, WorkerID = workerID s\<rparr>"
  let ?lockCall = "LockCall (Some 2000) (Name job)"
  obtain unlock metric where shape:
    "fst (runJob s w eid job) =
       Save ?record0 (save_initial w)
       # (body_events (runJob_body s job) @ unlock @ [MetricInc (Name job) metric])
       @ [Save (snd (runJob s w eid job)) (save_final w)]"
    and unlock: "unlock = (case body_lock (runJob_body s job) of
                   Some lk \<Rightarrow> [UnlockCall (Some 5000) (lock_name lk)] | None \<Rightarrow> [])"
    using runJob_events_shape [of s w eid job] by blast
  have first: "\<exists>rest. body_events (runJob_body s job) = ?lockCall # rest"
    using assms run_executor_events [of s job "[?lockCall]"]
    by (auto simp: runJob_body_def Let_def WithTimeout_def split: lock_outcome.splits)
  have a: "\<exists>rest. fst (runJob s w eid job) = Save ?record0 (save_initial w) # ?lockCall # rest"
    using shape first by auto
  have b: "\<forall>err. locker s (Some 2000) (Name job) = LockFailed err \<longrightarrow>
          Status (snd (runJob s w eid job)) = ExecutionStatusFailed
        \<and> Error (snd (runJob s w eid job)) = ''skipped execution: '' @ error_string err
        \<and> fst (runJob s w eid job) =
            [Save ?record0 (save_initial w), ?lockCall,
             MetricInc (Name job) ''failed'', Save (snd (runJob s w eid job)) (save_final w)]"
    using assms by (simp add: runJob_def runJob_body_def Let_def WithTimeout_def)
  have c: "locker s (Some 2000) (Name job) = LockFailed ErrLockNotAcquired \<longrightarrow>
          Error (snd (runJob s w eid job)) = ''skipped execution: lock not acquired''"
    using b by (simp add: ErrLockNotAcquired_def)
  have d: "\<exists>mid metric.
             fst (runJob s w eid job) =
               [Save ?record0 (save_initial w), ?lockCall] @ mid
               @ [UnlockCall (Some 5000) (lock_name lk), MetricInc (Name job) metric,
                  Save (snd (runJob s w eid job)) (save_final w)]
           \<and> (mid = [] \<or> mid = [ExecuteCall (ExecutorType job)])"
    if acq: "locker s (Some 2000) (Name job) = LockAcquired lk" for lk
  proof -
    from acq have body: "runJob_body s job = run_executor s job [?lockCall] (Some lk)"
      using assms by (simp add: runJob_body_def Let_def WithTimeout_def)
    then have u: "unlock = [UnlockCall (Some 5000) (lock_name lk)]"
      using unlock by (simp add: run_executor_lock)
    from run_executor_events [of s job "[?lockCall]" "Some lk"] body
    obtain mid where "body_events (runJob_body s job) = [?lockCall] @ mid"
      and "mid = [] \<or> mid = [ExecuteCall (ExecutorType job)]"
      by auto
    with shape u show ?thesis by auto
  qed
  have e: "etcd_serves etcd tbl (fst (runJob s w eid job)) (LockPrefix @ Name job) = None"
    if wired: "locker s = etcd_locker etcd tbl"
      and acq: "locker s (Some 2000) (Name job) = LockAcquired lk"
      and answers: "Unlock_fails etcd = None \<or> Close_fails etcd = None"
    for etcd tbl lk
  proof -
    from wired acq have "etcd_locker etcd tbl (Some 2000) (Name job) = LockAcquired lk"
      by simp
    then obtain session where session: "NewSession etcd = Inr session"
      and name: "lock_name lk = Name job"
      and locked: "snd (etcdLocker_Lock etcd tbl (Some 2000) (Name job))
                     = tbl(LockPrefix @ Name job \<mapsto> session)"
      using etcd_locker_acquired by blast
    from d [OF acq] obtain mid metric where evs:
      "fst (runJob s w eid job) =
         [Save ?record0 (save_initial w), ?lockCall] @ mid
         @ [UnlockCall (Some 5000) (lock_name lk), MetricInc (Name job) metric,
            Save (snd (runJob s w eid job)) (save_final w)]"
      and mid: "mid = [] \<or> mid = [ExecuteCall (ExecutorType job)]"
      by blast
    have held: "(tbl(LockPrefix @ Name job \<mapsto> session)) (LockPrefix @ Name job) = Some session"
      by simp
    have "etcd_serves etcd tbl (fst (runJob s w eid job))
            = snd (etcdLock_Unlock etcd session (Name job) (tbl(LockPrefix @ Name job \<mapsto> session)))"
      using mid by (auto simp: evs etcd_serves_def session name locked)
    then show ?thesis
      using etcdLock_Unlock_releases
        [where etcd = etcd and session = session and name = "Name job"
           and tbl = "tbl(LockPrefix @ Name job \<mapsto> session)", OF answers held]
      by simp
  qed
  from a b c d e show ?thesis
    by (intro exI [of _ ?record0] conjI) (simp, blast, blast, blast, blast, blast)
qed

theorem runJob_forbid_lock_gate_witness:
  "ConcurrencyPolicy nightly_job = ConcurrencyPolicyForbid
   \<and> locker (panicking_server slow_etcd) (Some 2000) (Name nightly_job)
       = LockFailed ErrLockNotAcquired
   \<and> Error (snd (runJob (panicking_server slow_etcd) store_down_world ''e-1'' nightly_job))
       = ''skipped execution: lock not acquired''
   \<and> (\<exists>lk. locker (panicking_server free_etcd) (Some 2000) (Name nightly_job) = LockAcquired lk)
   \<and> UnlockCall (Some 5000) ''nightly''
       \<in> set (fst (runJob (panicking_server free_etcd) store_down_world ''e-1'' nightly_job))
   \<and> etcd_serves free_etcd Map.empty
        (fst (runJob (panicking_server free_etcd) store_down_world ''e-1'' nightly_job))
        ''/cron/locks/nightly'' = None"
proof -
  have forbid: "ConcurrencyPolicy nightly_job = ConcurrencyPolicyForbid"
    by (simp add: nightly_job_def ConcurrencyPolicyForbid_def)
  have slow: "locker (panicking_server slow_etcd) (Some 2000) (Name nightly_job)
                = LockFailed ErrLockNotAcquired"
    by (simp add: panicking_server_def slow_etcd_def etcd_locker_def etcdLocker_Lock_def
        mutex_TryLock_def WithTimeout_def Let_def)
  have free: "locker (panicking_server free_etcd) (Some 2000) (Name nightly_job)
                = LockAcquired \<lparr>lock_name = ''nightly'', Unlock = None\<rparr>"
    by (simp add: panicking_server_def free_etcd_def etcd_locker_def etcdLocker_Lock_def
        mutex_TryLock_def etcdLock_Unlock_def mutex_Unlock_def WithTimeout_def Let_def
        nightly_job_def)
  have wired: "locker (panicking_server free_etcd) = etcd_locker free_etcd Map.empty"
    by (simp add: panicking_server_def)
  have answers: "Unlock_fails free_etcd = None \<or> Close_fails free_etcd = None"
    by (simp add: free_etcd_def)
  have name: "Name nightly_job = ''nightly''" "LockPrefix @ ''nightly'' = ''/cron/locks/nightly''"
    by (simp_all add: nightly_job_def LockPrefix_def)
  from runJob_forbid_lock_gate [OF forbid, of "panicking_server slow_etcd" store_down_world "''e-1''"]
    runJob_forbid_lock_gate [OF forbid, of "panicking_server free_etcd" store_down_world "''e-1''"]
  show ?thesis
    using forbid slow free wired answers name by (auto simp del: fun_upd_apply)
qed

section \<open>The worker: the reply of \<^verbatim>\<open>ExecuteTask\<close>\<close>





lemma numbered_ids_inj: "inj numbered_ids"
proof (rule injI)
  fix n m assume "numbered_ids n = numbered_ids m"
  then have "length (numbered_ids n) = length (numbered_ids m)" by simp
  then show "n = m" by (simp add: numbered_ids_def)
qed


section \<open>The master: dispatching a task\<close>

text \<open>
  Claim C9. For every dispatch of a job whose executor type is http or shell, as
  \<^verbatim>\<open>Job.Validate\<close> requires of every job, with \<^verbatim>\<open>rand.Intn\<close> answering within its range and
  \<^verbatim>\<open>grpc.NewClient\<close>, which connects to nothing, giving a client for each registered address
  that has none cached: when the snapshot of live workers is empty, \<^verbatim>\<open>DispatchTask\<close> fails with
  the error \<^verbatim>\<open>no available workers to dispatch job <name>\<close> and sends nothing; when it is not
  empty, one address of the snapshot is chosen, the task is sent to that address exactly
  once, and what the RPC returns, an error or \<^verbatim>\<open>nil\<close>, is returned unchanged, so that a failed
  send is not repeated.
\<close>

theorem DispatchTask_sends_once:
  assumes "ExecutorType job = ExecutorTypeHTTP \<or> ExecutorType job = ExecutorTypeShell"
    and "\<forall>n. 0 < n \<longrightarrow> rand_Intn w n < n"
    and "\<forall>addr \<in> set (GetWorkers (discovery d)). addr \<in> clients d \<or> grpc_NewClient w addr = None"
  shows "(GetWorkers (discovery d) = [] \<longrightarrow>
            DispatchTask w ds d job
              = (Done (Some (Plain (''no available workers to dispatch job '' @ Name job))), [], d))
       \<and> (GetWorkers (discovery d) \<noteq> [] \<longrightarrow>
            (\<exists>addr \<in> set (GetWorkers (discovery d)). \<exists>taskReq.
               domainToProto ds job = Inr taskReq
             \<and> fst (snd (DispatchTask w ds d job)) = [(addr, taskReq)]
             \<and> fst (DispatchTask w ds d job) = Done (rpc_ExecuteTask w addr taskReq)))"
proof (intro conjI impI)
  assume "GetWorkers (discovery d) = []"
  then show "DispatchTask w ds d job
        = (Done (Some (Plain (''no available workers to dispatch job '' @ Name job))), [], d)"
    by (simp add: DispatchTask_def)
next
  let ?ws = "GetWorkers (discovery d)"
  let ?addr = "?ws ! rand_Intn w (length ?ws)"
  assume nonempty: "?ws \<noteq> []"
  with assms(2) have range: "rand_Intn w (length ?ws) < length ?ws"
    by simp
  then have mem: "?addr \<in> set ?ws"
    by simp
  with assms(3) have client: "fst (getOrCreateClient w d ?addr) = None"
    by (auto simp: getOrCreateClient_def split: option.splits)
  have "\<exists>taskReq. domainToProto ds job = Inr taskReq"
    using assms(1) by (cases "RetryPolicy job") (auto simp: domainToProto_def Let_def)
  then obtain taskReq where conv: "domainToProto ds job = Inr taskReq"
    by blast
  have "fst (snd (DispatchTask w ds d job)) = [(?addr, taskReq)]
        \<and> fst (DispatchTask w ds d job) = Done (rpc_ExecuteTask w ?addr taskReq)"
    using nonempty range client conv
    by (auto simp: DispatchTask_def Let_def split: option.splits prod.splits)
  with mem conv show "\<exists>addr \<in> set ?ws. \<exists>taskReq.
               domainToProto ds job = Inr taskReq
             \<and> fst (snd (DispatchTask w ds d job)) = [(addr, taskReq)]
             \<and> fst (DispatchTask w ds d job) = Done (rpc_ExecuteTask w addr taskReq)"
    by blast
qed

theorem DispatchTask_sends_once_witness:
  "ExecutorType nightly_job = ExecutorTypeShell
   \<and> rand_Intn refusing_worker 1 = 0
   \<and> grpc_NewClient refusing_worker ''10.0.0.7:50052'' = None
   \<and> DispatchTask refusing_worker seconds_String one_worker nightly_job
     = (Done (Some (Plain ''rpc error: code = Unavailable'')),
        [(''10.0.0.7:50052'',
          \<lparr>req_Id = ''42'', req_Name = ''nightly'', req_CronExpr = ''0 0 3 * * *'',
           req_ExecutorType = ''shell'', HttpExecutor = None,
           ShellExecutor = Some \<lparr>shell_Command = ''backup.sh''\<rparr>,
           req_ConcurrencyPolicy = ''Forbid'', req_RetryPolicy = None, req_CreatedAt = 1\<rparr>)],
        one_worker\<lparr>clients := {''10.0.0.7:50052''}\<rparr>)
   \<and> DispatchTask refusing_worker seconds_String (one_worker\<lparr>discovery := []\<rparr>) nightly_job
     = (Done (Some (Plain ''no available workers to dispatch job nightly'')), [],
        one_worker\<lparr>discovery := []\<rparr>)"
proof -
  have valid: "ExecutorType nightly_job = ExecutorTypeHTTP \<or> ExecutorType nightly_job = ExecutorTypeShell"
    by (simp add: nightly_job_def ExecutorTypeShell_def)
  have range: "\<forall>n. 0 < n \<longrightarrow> rand_Intn refusing_worker n < n"
    by (simp add: refusing_worker_def)
  have client: "\<forall>addr \<in> set (GetWorkers (discovery d)).
         addr \<in> clients d \<or> grpc_NewClient refusing_worker addr = None" for d :: Dispatcher
    by (simp add: refusing_worker_def)
  from DispatchTask_sends_once [OF valid range client, where d = one_worker and ds = seconds_String]
    DispatchTask_sends_once [OF valid range client, where d = "one_worker\<lparr>discovery := []\<rparr>"
      and ds = seconds_String]
  show ?thesis
    by (simp add: one_worker_def refusing_worker_def nightly_job_def
      DispatchTask_def GetWorkers_def getOrCreateClient_def domainToProto_def Let_def
      ExecutorTypeHTTP_def ExecutorTypeShell_def)
qed

section \<open>The schedule engine: replacing an entry\<close>








section \<open>The scheduler service: losing leadership\<close>

text \<open>
  Claim C2 has the schedule engine stopped when leadership is lost. The service calls
  \<^verbatim>\<open>Stop\<close>, whose body is empty, and the wheel is stopped only by the root context: after a
  campaign won with one job in the repository and leadership then lost, the service is
  campaigning again and the wheel still runs and still fires the job; when the root context
  is cancelled instead, the wheel fires nothing.
\<close>

theorem leadership_lost_wheel_keeps_running:
  "SchedularService_Start six_fields NewCronScheduler [Campaigned (Inr [tick_job]) LeadershipLost]
     = (None,
        \<lparr>cron = \<lparr>cron_entries = [(1, ''*/1 * * * * *'', tick_job)], nextID = 1, running = True\<rparr>,
         jobs = [''tick'' \<mapsto> 1]\<rparr>,
        [CampaignCall, StopCall, CampaignCall])
   \<and> fires (cron (fst (snd (SchedularService_Start six_fields NewCronScheduler
                              [Campaigned (Inr [tick_job]) LeadershipLost]))))
     = [(''tick'', ''*/1 * * * * *'')]
   \<and> fires (cron (fst (snd (SchedularService_Start six_fields NewCronScheduler
                              [Campaigned (Inr [tick_job]) CtxDone]))))
     = []"
  by (simp add: runSchedular_def AddJob_def cron_AddJob_def cron_Remove_def NewCronScheduler_def
      six_fields_def tick_job_def Let_def cronScheduler_Stop_def cronScheduler_Start_def
      cronScheduler_ctx_done_def cron_Start_def cron_Stop_def fires_def)

end
